theory Spec2Isabelle
  imports Complex_Main "HOL-Library.Log_Nat" "HOL-Library.AList"
begin

section \<open>Python floats\<close>

text \<open>
  Every number the simulation stores is a Python \<open>float\<close>, an IEEE 754 binary64 value.
  A finite binary64 value is a rational number, so a float is modelled by the rational it
  denotes, and every floating-point operation is the exact operation followed by \<open>fl\<close>,
  rounding to the nearest representable value with ties to the even significand.
  \<open>quantum x\<close> is the spacing of the representable values around \<open>x\<close>: 52 fraction bits
  below the leading bit, and the fixed spacing \<open>2 powi (- 1074)\<close> in the subnormal range.
  Overflow to infinity is left out: the values of this program stay below 100, and the
  sums that leave the clamping range are clamped before they are stored.
\<close>

definition round_half_even :: "rat \<Rightarrow> int" where
  "round_half_even x =
     (let f = \<lfloor>x\<rfloor>; d = x - of_int f
      in if d < 1 / 2 then f
         else if 1 / 2 < d then f + 1
         else if even f then f else f + 1)"

definition ilog2 :: "rat \<Rightarrow> int" where
  "ilog2 x = (if 1 \<le> x then bitlen \<lfloor>x\<rfloor> - 1 else - bitlen (\<lceil>1 / x\<rceil> - 1))"

definition quantum :: "rat \<Rightarrow> rat" where
  "quantum x = 2 powi (max (ilog2 \<bar>x\<bar>) (- 1022) - 52)"

definition fl :: "rat \<Rightarrow> rat" where
  "fl x = (if x = 0 then 0 else of_int (round_half_even (x / quantum x)) * quantum x)"

text \<open>\<open>a + b\<close> and \<open>a * b\<close> on floats.\<close>

definition fadd :: "rat \<Rightarrow> rat \<Rightarrow> rat" where
  "fadd a b = fl (a + b)"

definition fmul :: "rat \<Rightarrow> rat \<Rightarrow> rat" where
  "fmul a b = fl (a * b)"

text \<open>
  \<open>round(x, ndigits)\<close> on a float: CPython converts \<open>x\<close> to the decimal with \<open>ndigits\<close>
  fraction digits nearest to its exact value (ties to even) and reads that decimal back as
  a float. On the integers \<open>20\<close> and \<open>60\<close>, which \<open>max(20, min(60, t))\<close> returns when it
  clamps, \<open>round\<close> returns the integer itself, which is the same number.
\<close>

definition py_round :: "rat \<Rightarrow> nat \<Rightarrow> rat" where
  "py_round x ndigits = fl (of_int (round_half_even (x * 10 ^ ndigits)) / 10 ^ ndigits)"

section \<open>Strings and dictionaries\<close>

text \<open>\<open>str(n)\<close> for a non-negative integer, as the f-strings of the key defaults use it.\<close>

definition digit_char :: "nat \<Rightarrow> char" where
  "digit_char d = char_of (48 + d)"

fun str_nat :: "nat \<Rightarrow> string" where
  "str_nat n = (if n < 10 then [digit_char n] else str_nat (n div 10) @ [digit_char (n mod 10)])"

declare str_nat.simps [simp del]

text \<open>\<open>s.lower()\<close> on ASCII text.\<close>

definition lower_char :: "char \<Rightarrow> char" where
  "lower_char c =
     (let n = (of_char c :: nat) in if 65 \<le> n \<and> n \<le> 90 then char_of (n + 32) else c)"

definition lower :: "string \<Rightarrow> string" where
  "lower s = map lower_char s"

text \<open>
  A Python \<open>dict\<close> with string keys keeps its entries in insertion order: an association
  list. \<open>d[k] = v\<close> replaces the value in place or appends a new entry
  (\<^const>\<open>AList.update\<close>), \<open>del d[k]\<close> drops the entry (\<^const>\<open>AList.delete\<close>),
  \<open>k in d\<close> is \<open>has_key\<close>, \<open>len(d)\<close> is \<^const>\<open>length\<close>.
\<close>

type_synonym 'v dict = "(string \<times> 'v) list"

definition has_key :: "string \<Rightarrow> 'v dict \<Rightarrow> bool" where
  "has_key k d = (k \<in> set (map fst d))"

definition dict_set :: "string \<Rightarrow> 'v \<Rightarrow> 'v dict \<Rightarrow> 'v dict" where
  "dict_set k v d = AList.update k v d"

definition dict_del :: "string \<Rightarrow> 'v dict \<Rightarrow> 'v dict" where
  "dict_del k d = AList.delete k d"

section \<open>Cells, tasks and the session state\<close>

datatype chemistry = LFP | NMC

fun chemistry_name :: "chemistry \<Rightarrow> string" where
  "chemistry_name LFP = ''LFP''"
| "chemistry_name NMC = ''NMC''"

text \<open>The dictionary \<open>generate_cell_data\<close> returns has the same ten keys for every cell.\<close>

record cell =
  cell_id :: string
  cell_type :: chemistry
  voltage :: rat
  current :: rat
  temperature :: rat
  capacity :: rat
  min_voltage :: rat
  max_voltage :: rat
  status :: string
  created_at :: nat

datatype task_kind = CC_CV | IDLE | CC_CD

fun task_kind_name :: "task_kind \<Rightarrow> string" where
  "task_kind_name CC_CV = ''CC_CV''"
| "task_kind_name IDLE = ''IDLE''"
| "task_kind_name CC_CD = ''CC_CD''"

text \<open>
  A task is a dictionary whose keys depend on the task type, so it stays a dictionary of
  Python values.
\<close>

datatype pyval = PNone | PStr string | PFloat rat | PInt int | PTime nat

type_synonym task = "pyval dict"

text \<open>
  The values of the widgets of \<open>add_task_form\<close>. Only the widgets of the selected task
  type are shown and read; the variables the form sets to \<open>None\<close> for the other types
  are never read by the handler.
\<close>

record task_form =
  task_type :: task_kind
  task_name :: string
  cc_input :: string
  cv_voltage_input :: rat
  current_input :: rat
  capacity_input :: rat
  voltage_input :: rat
  time_seconds :: int

record session_state =
  cells_data :: "cell dict"
  tasks_data :: "task dict"
  simulation_running :: bool

definition init_state :: session_state where
  "init_state = \<lparr>cells_data = [], tasks_data = [], simulation_running = False\<rparr>"

text \<open>
  The outcome of a form handler: the key of the new entry, or the error shown. The code
  reports one error, "already exists"; \<open>ValidationError\<close> and \<open>NotFoundError\<close> are the
  other error kinds the specification names.
\<close>

datatype error = DuplicateKeyError | ValidationError | NotFoundError

section \<open>Helper functions\<close>

text \<open>
  \<open>generate_cell_data(cell_type, cell_id)\<close>. The draw \<open>random.uniform(25, 40)\<close> is the
  parameter \<open>u\<close> and \<open>datetime.now()\<close> the parameter \<open>now\<close>. A decimal literal such as
  \<open>3.2\<close> denotes the float nearest to it.
\<close>

definition generate_cell_data :: "chemistry \<Rightarrow> string \<Rightarrow> rat \<Rightarrow> nat \<Rightarrow> cell" where
  "generate_cell_data ct cid u now =
     (let v = (if ct = LFP then fl (32 / 10) else fl (36 / 10));
          min_v = (if ct = LFP then fl (28 / 10) else fl (32 / 10));
          max_v = (if ct = LFP then fl (36 / 10) else fl (40 / 10));
          cur = 0;
          temp = py_round u 1;
          cap = py_round (fmul v cur) 2
      in \<lparr>cell_id = cid, cell_type = ct, voltage = v, current = cur, temperature = temp,
          capacity = cap, min_voltage = min_v, max_voltage = max_v, status = ''Active'',
          created_at = now\<rparr>)"

text \<open>
  The body of the loop of \<open>simulate_real_time_data\<close> for one cell, with the two draws
  \<open>random.uniform(-0.1, 0.1)\<close> and \<open>random.uniform(-2, 2)\<close> as parameters.
\<close>

definition simulate_cell :: "rat \<times> rat \<Rightarrow> cell \<Rightarrow> cell" where
  "simulate_cell draws cell_data =
     (let voltage_change = fst draws;
          temp_change = snd draws;
          new_voltage = max (min_voltage cell_data)
                            (min (max_voltage cell_data)
                                 (fadd (voltage cell_data) voltage_change));
          new_temp = max 20 (min 60 (fadd (temperature cell_data) temp_change))
      in cell_data\<lparr>voltage := py_round new_voltage 2,
                    temperature := py_round new_temp 1,
                    capacity := py_round (fmul new_voltage (current cell_data)) 2\<rparr>)"

text \<open>The loop over \<open>cells_data.items()\<close>; the \<open>i\<close>-th cell visited gets the draws \<open>rnd i\<close>.\<close>

fun simulate_cells :: "(nat \<Rightarrow> rat \<times> rat) \<Rightarrow> nat \<Rightarrow> cell dict \<Rightarrow> cell dict" where
  "simulate_cells rnd i [] = []"
| "simulate_cells rnd i ((k, cell_data) # rest) =
     (k, simulate_cell (rnd i) cell_data) # simulate_cells rnd (Suc i) rest"

definition simulate_real_time_data :: "(nat \<Rightarrow> rat \<times> rat) \<Rightarrow> session_state \<Rightarrow> session_state" where
  "simulate_real_time_data rnd s =
     (if cells_data s \<noteq> [] then s\<lparr>cells_data := simulate_cells rnd 0 (cells_data s)\<rparr> else s)"

section \<open>The form handlers\<close>

text \<open>The key of a new cell: the name typed, or the default built from the registry size.\<close>

definition cell_key :: "string \<Rightarrow> chemistry \<Rightarrow> session_state \<Rightarrow> string" where
  "cell_key cell_name ct s =
     (if cell_name \<noteq> [] then cell_name
      else ''cell_'' @ str_nat (length (cells_data s) + 1) @ ''_'' @ lower (chemistry_name ct))"

definition add_cell_form ::
  "chemistry \<Rightarrow> string \<Rightarrow> rat \<Rightarrow> nat \<Rightarrow> session_state \<Rightarrow> (error + string) \<times> session_state" where
  "add_cell_form ct cell_name u now s =
     (let cid = cell_key cell_name ct s
      in if \<not> has_key cid (cells_data s)
         then (Inr cid, s\<lparr>cells_data := dict_set cid (generate_cell_data ct cid u now) (cells_data s)\<rparr>)
         else (Inl DuplicateKeyError, s))"

text \<open>The remove button of a listed cell.\<close>

definition remove_cell :: "string \<Rightarrow> session_state \<Rightarrow> session_state" where
  "remove_cell cid s = s\<lparr>cells_data := dict_del cid (cells_data s)\<rparr>"

definition task_key :: "string \<Rightarrow> session_state \<Rightarrow> string" where
  "task_key name s =
     (if name \<noteq> [] then name else ''task_'' @ str_nat (length (tasks_data s) + 1))"

text \<open>\<open>task_data.update({...})\<close>: the entries are set one after the other.\<close>

fun dict_update_all :: "'v dict \<Rightarrow> 'v dict \<Rightarrow> 'v dict" where
  "dict_update_all [] d = d"
| "dict_update_all ((k, v) # kvs) d = dict_update_all kvs (dict_set k v d)"

definition make_task_data :: "task_form \<Rightarrow> string \<Rightarrow> nat \<Rightarrow> task" where
  "make_task_data f tid now =
     (let task_data =
            [(''task_id'', PStr tid),
             (''task_type'', PStr (task_kind_name (task_type f))),
             (''time_seconds'', PInt (time_seconds f)),
             (''status'', PStr ''Pending''),
             (''created_at'', PTime now)]
      in if task_type f = CC_CV then
           dict_update_all
             [(''cc_cp'', PStr (cc_input f)),
              (''cv_voltage'', PFloat (cv_voltage_input f)),
              (''current'', PFloat (current_input f)),
              (''capacity'', PFloat (capacity_input f))] task_data
         else if task_type f = CC_CD then
           dict_update_all
             [(''cc_cp'', PStr (cc_input f)),
              (''voltage'', PFloat (voltage_input f)),
              (''capacity'', PFloat (capacity_input f))] task_data
         else task_data)"

definition add_task_form ::
  "task_form \<Rightarrow> nat \<Rightarrow> session_state \<Rightarrow> (error + string) \<times> session_state" where
  "add_task_form f now s =
     (let tid = task_key (task_name f) s
      in if \<not> has_key tid (tasks_data s)
         then (Inr tid, s\<lparr>tasks_data := dict_set tid (make_task_data f tid now) (tasks_data s)\<rparr>)
         else (Inl DuplicateKeyError, s))"

definition remove_task :: "string \<Rightarrow> session_state \<Rightarrow> session_state" where
  "remove_task tid s = s\<lparr>tasks_data := dict_del tid (tasks_data s)\<rparr>"

text \<open>
  The states a session can reach. A page that needs cells stops before its widgets when
  there are none, so tasks are added and removed and the simulation is switched only while
  a cell exists. The draw for a new cell's temperature lies in \<open>[25, 40]\<close>; the draws of a
  tick are left unconstrained.
\<close>

inductive reachable :: "session_state \<Rightarrow> bool" where
  start: "reachable init_state"
| add_cell: "reachable s \<Longrightarrow> 25 \<le> u \<Longrightarrow> u \<le> 40 \<Longrightarrow> reachable (snd (add_cell_form ct name u now s))"
| remove_cell: "reachable s \<Longrightarrow> has_key cid (cells_data s) \<Longrightarrow> reachable (remove_cell cid s)"
| add_task: "reachable s \<Longrightarrow> cells_data s \<noteq> [] \<Longrightarrow> reachable (snd (add_task_form f now s))"
| remove_task:
    "reachable s \<Longrightarrow> cells_data s \<noteq> [] \<Longrightarrow> has_key tid (tasks_data s) \<Longrightarrow>
     reachable (remove_task tid s)"
| switch: "reachable s \<Longrightarrow> cells_data s \<noteq> [] \<Longrightarrow> reachable (s\<lparr>simulation_running := b\<rparr>)"
| tick: "reachable s \<Longrightarrow> reachable (simulate_real_time_data rnd s)"

section \<open>Predicates and scenarios of the verification\<close>

text \<open>The voltage range generate_cell_data gives a cell of each chemistry.\<close>

definition chemistry_bounds :: "cell \<Rightarrow> bool" where
  "chemistry_bounds c =
     ((min_voltage c, max_voltage c) =
        (case cell_type c of
           LFP \<Rightarrow> (fl (28 / 10), fl (36 / 10))
         | NMC \<Rightarrow> (fl (32 / 10), fl (40 / 10))))"

text \<open>What holds of every cell of a reachable state.\<close>

definition cell_ok :: "cell \<Rightarrow> bool" where
  "cell_ok c =
     (chemistry_bounds c \<and> min_voltage c \<le> voltage c \<and> voltage c \<le> max_voltage c \<and>
      20 \<le> temperature c \<and> temperature c \<le> 60 \<and> current c = 0 \<and> capacity c = 0)"

text \<open>Two entries of the cell registry that differ at most in voltage, temperature and capacity.\<close>

definition same_frame :: "string \<times> cell \<Rightarrow> string \<times> cell \<Rightarrow> bool" where
  "same_frame e e' =
     (fst e' = fst e \<and> cell_id (snd e') = cell_id (snd e) \<and>
      cell_type (snd e') = cell_type (snd e) \<and> current (snd e') = current (snd e) \<and>
      min_voltage (snd e') = min_voltage (snd e) \<and> max_voltage (snd e') = max_voltage (snd e) \<and>
      status (snd e') = status (snd e) \<and> created_at (snd e') = created_at (snd e))"

text \<open>
  The default cell key as the specification words it, \<open>cell_{n+1}_{chemistry}\<close> with the
  chemistry enumerand \<open>LFP\<close> or \<open>NMC\<close>, for comparison with \<open>cell_key\<close>.
\<close>

definition spec_cell_key :: "nat \<Rightarrow> chemistry \<Rightarrow> string" where
  "spec_cell_key n ct = ''cell_'' @ str_nat (n + 1) @ ''_'' @ chemistry_name ct"

text \<open>Concrete sessions: one LFP cell named A1, then one tick.\<close>

definition one_cell_state :: session_state where
  "one_cell_state = snd (add_cell_form LFP ''A1'' (3333 / 100) 0 init_state)"

definition ticked_state :: session_state where
  "ticked_state = simulate_real_time_data (\<lambda>i. (fl (1 / 10), - 2)) one_cell_state"

definition idle_form :: task_form where
  "idle_form =
     \<lparr>task_type = IDLE, task_name = [], cc_input = [], cv_voltage_input = 0, current_input = 0,
      capacity_input = 0, voltage_input = 0, time_seconds = 1800\<rparr>"

text \<open>A CC_CV form whose setpoint was left empty.\<close>

definition empty_setpoint_form :: task_form where
  "empty_setpoint_form =
     \<lparr>task_type = CC_CV, task_name = ''T1'', cc_input = [], cv_voltage_input = 4, current_input = 1,
      capacity_input = 100, voltage_input = 0, time_seconds = 3600\<rparr>"

definition one_task_state :: session_state where
  "one_task_state = snd (add_task_form empty_setpoint_form 1 one_cell_state)"

text \<open>
  Two cells and two tasks are created with default names, then the first cell and the
  first task are removed.
\<close>

definition two_cells_state :: session_state where
  "two_cells_state = snd (add_cell_form LFP [] 30 1 (snd (add_cell_form LFP [] 30 0 init_state)))"

definition two_tasks_state :: session_state where
  "two_tasks_state = snd (add_task_form idle_form 3 (snd (add_task_form idle_form 2 two_cells_state)))"

definition collision_state :: session_state where
  "collision_state = remove_task ''task_1'' (remove_cell ''cell_1_lfp'' two_tasks_state)"

section \<open>Rounding is monotone\<close>

lemma round_half_even_error: "\<bar>x - of_int (round_half_even x)\<bar> \<le> 1 / 2"
proof -
  have "of_int \<lfloor>x\<rfloor> \<le> x" and "x < of_int \<lfloor>x\<rfloor> + 1"
    by linarith+
  then show ?thesis
    by (auto simp: round_half_even_def Let_def)
qed

lemma round_half_even_of_int [simp]: "round_half_even (of_int n) = n"
  by (simp add: round_half_even_def)

lemma round_half_even_zero [simp]: "round_half_even 0 = 0"
  by (simp add: round_half_even_def)

lemma round_half_even_mono:
  assumes "x \<le> y"
  shows "round_half_even x \<le> round_half_even y"
proof (rule ccontr)
  assume "\<not> round_half_even x \<le> round_half_even y"
  then have lt: "round_half_even y + 1 \<le> round_half_even x"
    by simp
  then have "(of_int (round_half_even y) :: rat) + 1 \<le> of_int (round_half_even x)"
    by (metis of_int_1 of_int_add of_int_le_iff)
  moreover have "of_int (round_half_even x) - 1 / 2 \<le> x"
    using round_half_even_error [of x] by linarith
  moreover have "y \<le> of_int (round_half_even y) + 1 / 2"
    using round_half_even_error [of y] by linarith
  ultimately have "x = y"
    using assms by linarith
  with lt show False
    by simp
qed

text \<open>\<open>ilog2 x\<close> is the exponent of the binade of \<open>x\<close>.\<close>

lemma ilog2_lower:
  assumes "0 < x"
  shows "2 powi (ilog2 x) \<le> x"
proof (cases "1 \<le> x")
  case True
  define n where "n = \<lfloor>x\<rfloor>"
  have n: "1 \<le> n" using True by (simp add: n_def)
  then have b: "2 ^ nat (bitlen n - 1) \<le> n"
    using bitlen_bounds [of n] by simp
  have "1 \<le> bitlen n"
    using n by (simp add: bitlen_ge_iff_power)
  then have e: "0 \<le> bitlen n - 1"
    by simp
  have "(2::rat) powi (bitlen n - 1) = of_int (2 ^ nat (bitlen n - 1))"
    using e by (simp add: power_int_nonneg_exp)
  also have "\<dots> \<le> of_int n"
    using b by (simp only: of_int_le_iff)
  also have "\<dots> \<le> x"
    by (simp add: n_def)
  finally show ?thesis
    using True by (simp add: ilog2_def n_def)
next
  case False
  define m where "m = \<lceil>1 / x\<rceil>"
  define k where "k = bitlen (m - 1)"
  have "1 < 1 / x" using False assms by simp
  then have m: "2 \<le> m" unfolding m_def by linarith
  then have "m - 1 < 2 ^ nat k"
    using bitlen_bounds [of "m - 1"] by (simp add: k_def)
  then have "m \<le> 2 ^ nat k" by simp
  then have "(of_int m :: rat) \<le> 2 ^ nat k"
    by simp
  moreover have "1 / x \<le> of_int m"
    by (simp add: m_def)
  ultimately have "1 / x \<le> 2 ^ nat k" by linarith
  then have "1 / 2 ^ nat k \<le> x"
    using assms by (simp add: field_simps)
  moreover have "(2::rat) powi (- k) = 1 / 2 ^ nat k"
    by (simp add: power_int_minus_divide power_int_nonneg_exp k_def bitlen_nonneg)
  ultimately show ?thesis
    using False by (simp add: ilog2_def m_def k_def)
qed

lemma ilog2_upper:
  assumes "0 < x"
  shows "x < 2 powi (ilog2 x + 1)"
proof (cases "1 \<le> x")
  case True
  define n where "n = \<lfloor>x\<rfloor>"
  have n: "1 \<le> n" using True by (simp add: n_def)
  then have "n < 2 ^ nat (bitlen n)"
    using bitlen_bounds [of n] by simp
  then have "n + 1 \<le> 2 ^ nat (bitlen n)" by simp
  then have "(of_int (n + 1) :: rat) \<le> of_int (2 ^ nat (bitlen n))"
    by (simp only: of_int_le_iff)
  moreover have "x < of_int (n + 1)"
    unfolding n_def by linarith
  ultimately have "x < 2 ^ nat (bitlen n)" by simp
  moreover have "(2::rat) powi (bitlen n - 1 + 1) = 2 ^ nat (bitlen n)"
    by (simp add: power_int_nonneg_exp bitlen_nonneg)
  ultimately show ?thesis
    using True by (simp add: ilog2_def n_def)
next
  case False
  define m where "m = \<lceil>1 / x\<rceil>"
  define k where "k = bitlen (m - 1)"
  have "1 < 1 / x" using False assms by simp
  then have m: "2 \<le> m" unfolding m_def by linarith
  then have b: "2 ^ nat (k - 1) \<le> m - 1"
    using bitlen_bounds [of "m - 1"] by (simp add: k_def)
  have k: "1 \<le> k"
    using m by (simp add: k_def bitlen_ge_iff_power)
  have "(of_int (2 ^ nat (k - 1)) :: rat) \<le> of_int (m - 1)"
    using b by (simp only: of_int_le_iff)
  moreover have "of_int (m - 1) < 1 / x"
    unfolding m_def by linarith
  ultimately have "2 ^ nat (k - 1) < 1 / x" by simp
  then have "x < 1 / 2 ^ nat (k - 1)"
    using assms by (simp add: field_simps)
  moreover have "(2::rat) powi (- k + 1) = 1 / 2 ^ nat (k - 1)"
  proof -
    have "(2::rat) powi (- k + 1) = 2 powi (- (k - 1))" by simp
    also have "\<dots> = 1 / 2 powi (k - 1)" by (rule power_int_minus_divide)
    also have "\<dots> = 1 / 2 ^ nat (k - 1)"
      using k by (simp add: power_int_nonneg_exp)
    finally show ?thesis .
  qed
  ultimately show ?thesis
    using False by (simp add: ilog2_def m_def k_def)
qed

lemma ilog2_mono:
  assumes "0 < x" and "x \<le> y"
  shows "ilog2 x \<le> ilog2 y"
proof (rule ccontr)
  assume "\<not> ilog2 x \<le> ilog2 y"
  then have "ilog2 y + 1 \<le> ilog2 x" by simp
  then have "(2::rat) powi (ilog2 y + 1) \<le> 2 powi (ilog2 x)"
    by (simp only: power_int_increasing one_le_numeral)
  moreover have "2 powi (ilog2 x) \<le> x"
    using assms by (simp add: ilog2_lower)
  moreover have "y < 2 powi (ilog2 y + 1)"
    using assms by (simp add: ilog2_upper)
  ultimately show False
    using assms by linarith
qed

lemma quantum_pos: "0 < quantum x"
  by (simp add: quantum_def)

text \<open>
  Within one binade both arguments are rounded on the same grid. Across binades the
  power of two between them is representable and separates the two results.
\<close>

lemma fl_mono_pos:
  assumes "0 < x" and "x \<le> y"
  shows "fl x \<le> fl y"
proof -
  define ex where "ex = max (ilog2 x) (- 1022)"
  define ey where "ey = max (ilog2 y) (- 1022)"
  have y: "0 < y" using assms by simp
  have qx: "quantum x = 2 powi (ex - 52)"
    using assms by (simp add: quantum_def ex_def)
  have qy: "quantum y = 2 powi (ey - 52)"
    using y by (simp add: quantum_def ey_def)
  have flx: "fl x = of_int (round_half_even (x / quantum x)) * quantum x"
    using assms by (simp add: fl_def)
  have fly: "fl y = of_int (round_half_even (y / quantum y)) * quantum y"
    using y by (simp add: fl_def)
  have le: "ex \<le> ey"
    using ilog2_mono [OF assms] by (simp add: ex_def ey_def)
  show ?thesis
  proof (cases "ex = ey")
    case True
    then have q: "quantum y = quantum x" by (simp add: qx qy)
    have "x / quantum x \<le> y / quantum x"
      using assms quantum_pos [of x] by (simp add: divide_right_mono)
    then have "round_half_even (x / quantum x) \<le> round_half_even (y / quantum x)"
      by (rule round_half_even_mono)
    then have "(of_int (round_half_even (x / quantum x)) :: rat) \<le> of_int (round_half_even (y / quantum x))"
      by (simp only: of_int_le_iff)
    then show ?thesis
      using quantum_pos [of x] by (simp add: flx fly q mult_right_mono)
  next
    case False
    with le have lt: "ex + 1 \<le> ey" by simp
    then have eyl: "ey = ilog2 y" by (simp add: ex_def ey_def)
    have "x < 2 powi (ilog2 x + 1)"
      using assms by (simp add: ilog2_upper)
    also have "\<dots> \<le> 2 powi (ex + 1)"
      unfolding ex_def by (intro power_int_increasing) simp_all
    finally have xu: "x \<le> 2 powi (ex + 1)" by simp
    have p53: "(2::rat) powi (ex + 1) = 2 ^ 53 * quantum x"
    proof -
      have "(2::rat) powi (53 + (ex - 52)) = 2 powi 53 * 2 powi (ex - 52)"
        by (rule power_int_add) simp
      then show ?thesis by (simp add: qx add.commute)
    qed
    have "x \<le> 2 ^ 53 * quantum x"
      using xu by (simp only: p53)
    then have "x / quantum x \<le> 2 ^ 53"
      by (simp only: pos_divide_le_eq [OF quantum_pos])
    then have "round_half_even (x / quantum x) \<le> round_half_even (of_int (2 ^ 53))"
      by (intro round_half_even_mono) simp
    then have "(of_int (round_half_even (x / quantum x)) :: rat) \<le> of_int (2 ^ 53)"
      by (simp only: round_half_even_of_int of_int_le_iff)
    then have "fl x \<le> 2 ^ 53 * quantum x"
      using quantum_pos [of x] by (simp add: flx mult_right_mono)
    then have a: "fl x \<le> 2 powi (ex + 1)"
      by (simp add: p53)
    have yl: "2 powi ey \<le> y"
      using y by (simp add: eyl ilog2_lower)
    have p52: "(2::rat) powi ey = 2 ^ 52 * quantum y"
    proof -
      have "(2::rat) powi (52 + (ey - 52)) = 2 powi 52 * 2 powi (ey - 52)"
        by (rule power_int_add) simp
      then show ?thesis by (simp add: qy)
    qed
    have "2 ^ 52 * quantum y \<le> y"
      using yl by (simp only: p52)
    then have "2 ^ 52 \<le> y / quantum y"
      by (simp only: pos_le_divide_eq [OF quantum_pos])
    then have "round_half_even (of_int (2 ^ 52)) \<le> round_half_even (y / quantum y)"
      by (intro round_half_even_mono) simp
    then have "(of_int (2 ^ 52) :: rat) \<le> of_int (round_half_even (y / quantum y))"
      by (simp only: round_half_even_of_int of_int_le_iff)
    then have "2 ^ 52 * quantum y \<le> fl y"
      using quantum_pos [of y] by (simp add: fly mult_right_mono)
    then have b: "2 powi ey \<le> fl y"
      by (simp add: p52)
    have "(2::rat) powi (ex + 1) \<le> 2 powi ey"
      using lt by (simp only: power_int_increasing one_le_numeral)
    with a b show ?thesis by linarith
  qed
qed

lemma fl_nonneg:
  assumes "0 \<le> y"
  shows "0 \<le> fl y"
proof -
  have "0 \<le> y / quantum y"
    using assms quantum_pos [of y] by simp
  then have "round_half_even (of_int 0) \<le> round_half_even (y / quantum y)"
    by (intro round_half_even_mono) simp
  then have "0 \<le> round_half_even (y / quantum y)"
    by (simp only: round_half_even_of_int)
  then show ?thesis
    using quantum_pos [of y] by (simp add: fl_def)
qed

lemma fl_mono:
  assumes "0 \<le> x" and "x \<le> y"
  shows "fl x \<le> fl y"
proof (cases "x = 0")
  case True
  then show ?thesis
    using assms fl_nonneg [of y] by (simp add: fl_def)
next
  case False
  then show ?thesis
    using assms by (intro fl_mono_pos) simp_all
qed

lemma py_round_mono:
  assumes "0 \<le> x" and "x \<le> y"
  shows "py_round x n \<le> py_round y n"
proof -
  have "x * 10 ^ n \<le> y * 10 ^ n"
    using assms by (simp add: mult_right_mono)
  then have le: "round_half_even (x * 10 ^ n) \<le> round_half_even (y * 10 ^ n)"
    by (rule round_half_even_mono)
  have "0 \<le> x * 10 ^ n"
    using assms by simp
  then have "round_half_even (of_int 0) \<le> round_half_even (x * 10 ^ n)"
    by (intro round_half_even_mono) simp
  then have nn: "0 \<le> round_half_even (x * 10 ^ n)"
    by (simp only: round_half_even_of_int)
  have "(of_int (round_half_even (x * 10 ^ n)) :: rat) / 10 ^ n
          \<le> of_int (round_half_even (y * 10 ^ n)) / 10 ^ n"
    using le by (simp add: divide_right_mono)
  moreover have "(0::rat) \<le> of_int (round_half_even (x * 10 ^ n)) / 10 ^ n"
    using nn by simp
  ultimately show ?thesis
    unfolding py_round_def by (intro fl_mono)
qed

text \<open>
  A value clamped between two fixed points of the rounding is rounded to a value between
  them.
\<close>

lemma py_round_clamp:
  assumes "0 \<le> lo" and "lo \<le> hi" and "py_round lo n = lo" and "py_round hi n = hi"
  shows "lo \<le> py_round (max lo (min hi x)) n" and "py_round (max lo (min hi x)) n \<le> hi"
proof -
  have "py_round lo n \<le> py_round (max lo (min hi x)) n"
    using assms(1) by (intro py_round_mono) simp_all
  then show "lo \<le> py_round (max lo (min hi x)) n"
    by (simp only: assms(3))
  have "py_round (max lo (min hi x)) n \<le> py_round hi n"
    using assms(1,2) by (intro py_round_mono) simp_all
  then show "py_round (max lo (min hi x)) n \<le> hi"
    by (simp only: assms(4))
qed

text \<open>The literals of the program and the way they round.\<close>

lemma voltage_literals_fixed:
  "py_round (fl (28 / 10)) 2 = fl (28 / 10)"
  "py_round (fl (32 / 10)) 2 = fl (32 / 10)"
  "py_round (fl (36 / 10)) 2 = fl (36 / 10)"
  "py_round (fl (40 / 10)) 2 = fl (40 / 10)"
  by code_simp+

lemma voltage_literals_ordered:
  "0 \<le> fl (28 / 10)" "fl (28 / 10) \<le> fl (32 / 10)" "fl (32 / 10) \<le> fl (36 / 10)"
  "fl (36 / 10) \<le> fl (40 / 10)"
  by code_simp+

lemma temperature_limits_fixed:
  "py_round 20 1 = 20" "py_round 60 1 = 60" "py_round 25 1 = 25" "py_round 40 1 = 40"
  by code_simp+

lemma fmul_zero [simp]: "fmul x 0 = 0"
  by (simp add: fmul_def fl_def)

lemma py_round_zero [simp]: "py_round 0 n = 0"
  by (simp add: py_round_def fl_def)

section \<open>Dictionaries\<close>

lemma set_dict_set: "set (dict_set k v d) \<subseteq> insert (k, v) (set d)"
  unfolding dict_set_def by (induction d) auto

lemma set_dict_del: "set (dict_del k d) \<subseteq> set d"
  unfolding dict_del_def by (induction d) auto

lemma map_of_dict_set: "map_of (dict_set k v d) k = Some v"
  by (simp add: dict_set_def update_conv')

section \<open>One tick of one cell\<close>

lemma simulate_cell_frame:
  "cell_id (simulate_cell dr c) = cell_id c"
  "cell_type (simulate_cell dr c) = cell_type c"
  "current (simulate_cell dr c) = current c"
  "min_voltage (simulate_cell dr c) = min_voltage c"
  "max_voltage (simulate_cell dr c) = max_voltage c"
  "status (simulate_cell dr c) = status c"
  "created_at (simulate_cell dr c) = created_at c"
  by (simp_all add: simulate_cell_def Let_def)

lemma simulate_cell_voltage:
  assumes "chemistry_bounds c"
  shows "min_voltage c \<le> voltage (simulate_cell dr c) \<and> voltage (simulate_cell dr c) \<le> max_voltage c"
proof (cases "cell_type c")
  case LFP
  with assms have b: "min_voltage c = fl (28 / 10)" "max_voltage c = fl (36 / 10)"
    by (simp_all add: chemistry_bounds_def)
  have "fl (28 / 10) \<le> fl (36 / 10)"
    using voltage_literals_ordered(2,3) by (rule order_trans)
  then show ?thesis
    using py_round_clamp [OF voltage_literals_ordered(1) _ voltage_literals_fixed(1,3)]
    by (simp add: simulate_cell_def Let_def b)
next
  case NMC
  with assms have b: "min_voltage c = fl (32 / 10)" "max_voltage c = fl (40 / 10)"
    by (simp_all add: chemistry_bounds_def)
  have lo: "0 \<le> fl (32 / 10)"
    using voltage_literals_ordered(1,2) by (rule order_trans)
  have "fl (32 / 10) \<le> fl (40 / 10)"
    using voltage_literals_ordered(3,4) by (rule order_trans)
  then show ?thesis
    using py_round_clamp [OF lo _ voltage_literals_fixed(2,4)]
    by (simp add: simulate_cell_def Let_def b)
qed

lemma simulate_cell_temperature:
  "20 \<le> temperature (simulate_cell dr c) \<and> temperature (simulate_cell dr c) \<le> 60"
  using py_round_clamp [OF _ _ temperature_limits_fixed(1,2)]
  by (simp add: simulate_cell_def Let_def)

lemma simulate_cell_ok:
  assumes "cell_ok c"
  shows "cell_ok (simulate_cell dr c)"
proof -
  have cb: "chemistry_bounds c" and cur: "current c = 0"
    using assms by (simp_all add: cell_ok_def)
  have "chemistry_bounds (simulate_cell dr c)"
    using cb by (simp add: chemistry_bounds_def simulate_cell_frame)
  moreover have "capacity (simulate_cell dr c) = 0"
    by (simp add: simulate_cell_def Let_def cur)
  ultimately show ?thesis
    using simulate_cell_voltage [OF cb, of dr] simulate_cell_temperature [of dr c] cur
    by (simp add: cell_ok_def simulate_cell_frame)
qed

lemma simulate_cells_ok:
  "\<forall>e \<in> set d. cell_ok (snd e) \<Longrightarrow> \<forall>e \<in> set (simulate_cells rnd i d). cell_ok (snd e)"
  by (induction rnd i d rule: simulate_cells.induct) (simp_all add: simulate_cell_ok)

lemma simulate_cells_frame: "list_all2 same_frame d (simulate_cells rnd i d)"
  by (induction rnd i d rule: simulate_cells.induct)
     (simp_all add: same_frame_def simulate_cell_frame)

lemma simulate_cells_keys: "map fst (simulate_cells rnd i d) = map fst d"
  by (induction rnd i d rule: simulate_cells.induct) simp_all

section \<open>A new cell\<close>

lemma generate_cell_data_temperature:
  assumes "25 \<le> u" and "u \<le> 40"
  shows "25 \<le> temperature (generate_cell_data ct cid u now)"
    and "temperature (generate_cell_data ct cid u now) \<le> 40"
proof -
  have "py_round 25 1 \<le> py_round u 1"
    using assms by (intro py_round_mono) simp_all
  then have "25 \<le> py_round u 1"
    by (simp only: temperature_limits_fixed)
  then show "25 \<le> temperature (generate_cell_data ct cid u now)"
    by (simp add: generate_cell_data_def)
  have "py_round u 1 \<le> py_round 40 1"
    using assms by (intro py_round_mono) simp_all
  then have "py_round u 1 \<le> 40"
    by (simp only: temperature_limits_fixed)
  then show "temperature (generate_cell_data ct cid u now) \<le> 40"
    by (simp add: generate_cell_data_def)
qed

lemma generate_cell_data_ok:
  assumes "25 \<le> u" and "u \<le> 40"
  shows "cell_ok (generate_cell_data ct cid u now)"
proof -
  have "chemistry_bounds (generate_cell_data ct cid u now)"
    by (cases ct) (simp_all add: chemistry_bounds_def generate_cell_data_def)
  moreover have "min_voltage (generate_cell_data ct cid u now) \<le> voltage (generate_cell_data ct cid u now)"
    using voltage_literals_ordered by (cases ct) (simp_all add: generate_cell_data_def)
  moreover have "voltage (generate_cell_data ct cid u now) \<le> max_voltage (generate_cell_data ct cid u now)"
    using voltage_literals_ordered by (cases ct) (simp_all add: generate_cell_data_def)
  moreover have "current (generate_cell_data ct cid u now) = 0"
    and "capacity (generate_cell_data ct cid u now) = 0"
    by (simp_all add: generate_cell_data_def)
  ultimately show ?thesis
    using generate_cell_data_temperature [OF assms, of ct cid now]
    by (simp add: cell_ok_def)
qed

section \<open>Every cell of a reachable state\<close>

lemma reachable_cell_ok:
  assumes "reachable s"
  shows "\<forall>e \<in> set (cells_data s). cell_ok (snd e)"
  using assms
proof (induction rule: reachable.induct)
  case start
  then show ?case by (simp add: init_state_def)
next
  case (add_cell s u ct name now)
  then show ?case
    using set_dict_set [of "cell_key name ct s" "generate_cell_data ct (cell_key name ct s) u now" "cells_data s"]
    by (auto simp: add_cell_form_def Let_def generate_cell_data_ok)
next
  case (remove_cell s cid)
  then show ?case
    using set_dict_del [of cid "cells_data s"] by (auto simp: remove_cell_def)
next
  case (add_task s f now)
  then show ?case by (simp add: add_task_form_def Let_def)
next
  case (remove_task s tid)
  then show ?case by (simp add: remove_task_def)
next
  case (switch s b)
  then show ?case by simp
next
  case (tick s rnd)
  then show ?case
    using simulate_cells_ok [of "cells_data s" rnd 0]
    by (simp add: simulate_real_time_data_def)
qed

section \<open>The perturbation engine\<close>

text \<open>
  C1. In every state a session can reach, whatever the sequence of cell and task
  operations and ticks that led to it and whatever the draws of the ticks were, the
  stored voltage of every cell lies within the cell's own \<open>[min_voltage, max_voltage]\<close>:
  the clamped sum is rounded to two decimals, and the rounded value is still within the
  bounds.
\<close>

theorem voltage_within_bounds:
  assumes "reachable s" and "(k, c) \<in> set (cells_data s)"
  shows "min_voltage c \<le> voltage c \<and> voltage c \<le> max_voltage c"
  using reachable_cell_ok [OF assms(1)] assms(2) by (auto simp: cell_ok_def)

theorem voltage_within_bounds_witness:
  "reachable ticked_state \<and> (''A1'', snd (hd (cells_data ticked_state))) \<in> set (cells_data ticked_state) \<and>
   voltage (snd (hd (cells_data ticked_state))) = fl (33 / 10) \<and>
   min_voltage (snd (hd (cells_data ticked_state))) \<le> voltage (snd (hd (cells_data ticked_state))) \<and>
   voltage (snd (hd (cells_data ticked_state))) \<le> max_voltage (snd (hd (cells_data ticked_state)))"
proof -
  have "reachable one_cell_state"
    unfolding one_cell_state_def by (intro reachable.add_cell reachable.start) simp_all
  then have r: "reachable ticked_state"
    unfolding ticked_state_def by (rule reachable.tick)
  have m: "(''A1'', snd (hd (cells_data ticked_state))) \<in> set (cells_data ticked_state)"
    by code_simp
  have v: "voltage (snd (hd (cells_data ticked_state))) = fl (33 / 10)"
    by code_simp
  from r m v voltage_within_bounds [OF r m] show ?thesis
    by simp
qed

text \<open>
  C2. In every reachable state the stored temperature of every cell lies within
  \<open>[20, 60]\<close>: a tick clamps the sum to \<open>[20, 60]\<close> and rounds it to one decimal, which
  stays within the bounds; and a new cell, whose temperature is the rounded draw from
  \<open>[25, 40]\<close>, starts within them.
\<close>

theorem temperature_within_bounds:
  "(reachable s \<longrightarrow> (k, c) \<in> set (cells_data s) \<longrightarrow> 20 \<le> temperature c \<and> temperature c \<le> 60) \<and>
   (25 \<le> u \<longrightarrow> u \<le> 40 \<longrightarrow>
      20 \<le> temperature (generate_cell_data ct cid u now) \<and>
      temperature (generate_cell_data ct cid u now) \<le> 60)"
proof (intro conjI impI)
  assume "reachable s" and "(k, c) \<in> set (cells_data s)"
  then have "cell_ok c"
    using reachable_cell_ok [of s] by auto
  then show "20 \<le> temperature c" and "temperature c \<le> 60"
    by (simp_all add: cell_ok_def)
next
  assume "25 \<le> u" and "u \<le> 40"
  then show "20 \<le> temperature (generate_cell_data ct cid u now)"
    and "temperature (generate_cell_data ct cid u now) \<le> 60"
    using generate_cell_data_temperature [of u ct cid now] by simp_all
qed

theorem temperature_within_bounds_witness:
  "reachable ticked_state \<and> (''A1'', snd (hd (cells_data ticked_state))) \<in> set (cells_data ticked_state) \<and>
   temperature (snd (hd (cells_data ticked_state))) = fl (313 / 10) \<and>
   20 \<le> temperature (snd (hd (cells_data ticked_state))) \<and>
   temperature (snd (hd (cells_data ticked_state))) \<le> 60 \<and>
   (25::rat) \<le> 3333 / 100 \<and> (3333 / 100 :: rat) \<le> 40 \<and>
   temperature (generate_cell_data LFP ''A1'' (3333 / 100) 0) = fl (333 / 10) \<and>
   20 \<le> temperature (generate_cell_data LFP ''A1'' (3333 / 100) 0) \<and>
   temperature (generate_cell_data LFP ''A1'' (3333 / 100) 0) \<le> 60"
proof -
  have "reachable one_cell_state"
    unfolding one_cell_state_def by (intro reachable.add_cell reachable.start) simp_all
  then have r: "reachable ticked_state"
    unfolding ticked_state_def by (rule reachable.tick)
  have m: "(''A1'', snd (hd (cells_data ticked_state))) \<in> set (cells_data ticked_state)"
    by code_simp
  have t: "temperature (snd (hd (cells_data ticked_state))) = fl (313 / 10)"
    by code_simp
  have g: "temperature (generate_cell_data LFP ''A1'' (3333 / 100) 0) = fl (333 / 10)"
    by code_simp
  have u: "(25::rat) \<le> 3333 / 100" "(3333 / 100 :: rat) \<le> 40"
    by simp_all
  from r m t g u
    temperature_within_bounds [of ticked_state "''A1''" "snd (hd (cells_data ticked_state))"
      "3333 / 100" LFP "''A1''" 0]
  show ?thesis
    by simp
qed

text \<open>
  C3. After a tick of a reachable state the stored capacity of every cell equals
  \<open>round(voltage * current, 2)\<close> of its stored voltage and current. The tick computes the
  capacity from the voltage before rounding; the two agree because the current of every
  cell of a reachable state is 0.
\<close>

theorem capacity_consistent_after_tick:
  assumes "reachable s" and "(k, c) \<in> set (cells_data (simulate_real_time_data rnd s))"
  shows "capacity c = py_round (fmul (voltage c) (current c)) 2"
proof -
  have "reachable (simulate_real_time_data rnd s)"
    using assms(1) by (rule reachable.tick)
  then have "cell_ok c"
    using reachable_cell_ok assms(2) by fastforce
  then show ?thesis
    by (simp add: cell_ok_def)
qed

theorem capacity_consistent_after_tick_witness:
  "reachable one_cell_state \<and>
   (''A1'', snd (hd (cells_data ticked_state)))
     \<in> set (cells_data (simulate_real_time_data (\<lambda>i. (fl (1 / 10), - 2)) one_cell_state)) \<and>
   capacity (snd (hd (cells_data ticked_state))) =
     py_round (fmul (voltage (snd (hd (cells_data ticked_state))))
                    (current (snd (hd (cells_data ticked_state))))) 2"
proof -
  have r: "reachable one_cell_state"
    unfolding one_cell_state_def by (intro reachable.add_cell reachable.start) simp_all
  have m: "(''A1'', snd (hd (cells_data ticked_state)))
     \<in> set (cells_data (simulate_real_time_data (\<lambda>i. (fl (1 / 10), - 2)) one_cell_state))"
    by code_simp
  from r m capacity_consistent_after_tick [OF r m] show ?thesis
    by simp
qed

text \<open>
  C9. A tick leaves the task registry and the running flag as they are, keeps the keys of
  the cell registry and their order, and changes no field of a cell other than voltage,
  temperature and capacity.
\<close>

theorem tick_frame:
  "tasks_data (simulate_real_time_data rnd s) = tasks_data s \<and>
   simulation_running (simulate_real_time_data rnd s) = simulation_running s \<and>
   map fst (cells_data (simulate_real_time_data rnd s)) = map fst (cells_data s) \<and>
   list_all2 same_frame (cells_data s) (cells_data (simulate_real_time_data rnd s))"
  by (simp add: simulate_real_time_data_def simulate_cells_keys simulate_cells_frame
      list_all2_refl same_frame_def)

section \<open>The registries\<close>

text \<open>
  C4. Adding a cell or a task whose key, typed or defaulted, is already in its registry
  reports the duplicate and returns the session state as it was: no entry is added or
  overwritten.
\<close>

theorem duplicate_rejected:
  "(has_key (cell_key name ct s) (cells_data s) \<longrightarrow>
      add_cell_form ct name u now s = (Inl DuplicateKeyError, s)) \<and>
   (has_key (task_key (task_name f) s) (tasks_data s) \<longrightarrow>
      add_task_form f now s = (Inl DuplicateKeyError, s))"
  by (simp add: add_cell_form_def add_task_form_def Let_def)

theorem duplicate_rejected_witness:
  "has_key (cell_key ''A1'' NMC one_task_state) (cells_data one_task_state) \<and>
   add_cell_form NMC ''A1'' 30 5 one_task_state = (Inl DuplicateKeyError, one_task_state) \<and>
   has_key (task_key (task_name empty_setpoint_form) one_task_state) (tasks_data one_task_state) \<and>
   add_task_form empty_setpoint_form 5 one_task_state = (Inl DuplicateKeyError, one_task_state)"
proof -
  have c: "has_key (cell_key ''A1'' NMC one_task_state) (cells_data one_task_state)"
    by code_simp
  have t: "has_key (task_key (task_name empty_setpoint_form) one_task_state) (tasks_data one_task_state)"
    by code_simp
  from c t duplicate_rejected [of "''A1''" NMC one_task_state 30 5 empty_setpoint_form]
  show ?thesis
    by simp
qed

text \<open>
  C5, as the claim states it, fails: a CC_CV task whose setpoint was left empty is created
  and stored with the empty setpoint, and no validation error is reported.
\<close>

theorem validation_counterexample:
  "fst (add_task_form empty_setpoint_form 1 one_cell_state) = Inr ''T1'' \<and>
   fst (add_task_form empty_setpoint_form 1 one_cell_state) \<noteq> Inl ValidationError \<and>
   tasks_data (snd (add_task_form empty_setpoint_form 1 one_cell_state)) \<noteq> tasks_data one_cell_state \<and>
   map_of (tasks_data (snd (add_task_form empty_setpoint_form 1 one_cell_state))) ''T1'' =
     Some [(''task_id'', PStr ''T1''), (''task_type'', PStr ''CC_CV''), (''time_seconds'', PInt 3600),
           (''status'', PStr ''Pending''), (''created_at'', PTime 1), (''cc_cp'', PStr []),
           (''cv_voltage'', PFloat 4), (''current'', PFloat 1), (''capacity'', PFloat 100)]"
  by code_simp

text \<open>
  C5, amended. The handler checks nothing about the parameters of the task type: it never
  reports a validation error, and whenever the key is not yet in the registry the task is
  created and stored under that key with the setpoint as it was typed, the empty text
  included.
\<close>

theorem add_task_without_validation:
  "fst (add_task_form f now s) \<noteq> Inl ValidationError \<and>
   (\<not> has_key (task_key (task_name f) s) (tasks_data s) \<longrightarrow>
      fst (add_task_form f now s) = Inr (task_key (task_name f) s) \<and>
      map_of (tasks_data (snd (add_task_form f now s))) (task_key (task_name f) s) =
        Some (make_task_data f (task_key (task_name f) s) now)) \<and>
   (task_type f \<noteq> IDLE \<longrightarrow>
      map_of (make_task_data f (task_key (task_name f) s) now) ''cc_cp'' = Some (PStr (cc_input f)))"
proof -
  have "task_type f \<noteq> IDLE \<longrightarrow>
      map_of (make_task_data f (task_key (task_name f) s) now) ''cc_cp'' = Some (PStr (cc_input f))"
    by (cases "task_type f") (simp_all add: make_task_data_def dict_set_def)
  then show ?thesis
    by (simp add: add_task_form_def Let_def map_of_dict_set)
qed

theorem add_task_without_validation_witness:
  "\<not> has_key (task_key (task_name empty_setpoint_form) one_cell_state) (tasks_data one_cell_state) \<and>
   task_type empty_setpoint_form \<noteq> IDLE \<and> cc_input empty_setpoint_form = [] \<and>
   fst (add_task_form empty_setpoint_form 1 one_cell_state) = Inr ''T1'' \<and>
   map_of (tasks_data (snd (add_task_form empty_setpoint_form 1 one_cell_state))) ''T1'' =
     Some (make_task_data empty_setpoint_form ''T1'' 1) \<and>
   map_of (make_task_data empty_setpoint_form ''T1'' 1) ''cc_cp'' = Some (PStr [])"
proof -
  have h: "\<not> has_key (task_key (task_name empty_setpoint_form) one_cell_state) (tasks_data one_cell_state)"
    by code_simp
  have k: "task_key (task_name empty_setpoint_form) one_cell_state = ''T1''"
    by (simp add: task_key_def empty_setpoint_form_def)
  have e: "task_type empty_setpoint_form \<noteq> IDLE" "cc_input empty_setpoint_form = []"
    by (simp_all add: empty_setpoint_form_def)
  from h e add_task_without_validation [of empty_setpoint_form 1 one_cell_state]
  show ?thesis
    by (simp add: k)
qed

text \<open>
  C6, as the claim states it, fails: the default key of the first LFP cell is
  \<open>cell_1_lfp\<close>, with the chemistry in lower case, not \<open>cell_1_LFP\<close>.
\<close>

theorem default_cell_key_counterexample:
  "fst (add_cell_form LFP [] 30 0 init_state) = Inr ''cell_1_lfp'' \<and>
   spec_cell_key (length (cells_data init_state)) LFP = ''cell_1_LFP'' \<and>
   fst (add_cell_form LFP [] 30 0 init_state) \<noteq> Inr (spec_cell_key (length (cells_data init_state)) LFP)"
  by code_simp

text \<open>
  C6, amended. With no name typed, the key of a new cell is \<open>cell_{n+1}_{chemistry}\<close>,
  where \<open>n\<close> is the size of the cell registry and the chemistry is written in lower case
  (\<open>lfp\<close> or \<open>nmc\<close>), and the key of a new task is \<open>task_{n+1}\<close>, where \<open>n\<close> is the size of
  the task registry: that key is the one tested against the registry and returned.
\<close>

theorem default_keys:
  assumes "task_name f = []"
  shows "fst (add_cell_form ct [] u now s) =
           (if has_key (''cell_'' @ str_nat (length (cells_data s) + 1) @ ''_'' @
                          (case ct of LFP \<Rightarrow> ''lfp'' | NMC \<Rightarrow> ''nmc'')) (cells_data s)
            then Inl DuplicateKeyError
            else Inr (''cell_'' @ str_nat (length (cells_data s) + 1) @ ''_'' @
                          (case ct of LFP \<Rightarrow> ''lfp'' | NMC \<Rightarrow> ''nmc''))) \<and>
         fst (add_task_form f now' s) =
           (if has_key (''task_'' @ str_nat (length (tasks_data s) + 1)) (tasks_data s)
            then Inl DuplicateKeyError
            else Inr (''task_'' @ str_nat (length (tasks_data s) + 1)))"
proof -
  have "lower ''LFP'' = ''lfp''" and "lower ''NMC'' = ''nmc''"
    by code_simp+
  then have "lower (chemistry_name ct) = (case ct of LFP \<Rightarrow> ''lfp'' | NMC \<Rightarrow> ''nmc'')"
    by (cases ct) simp_all
  then show ?thesis
    using assms by (simp add: add_cell_form_def add_task_form_def cell_key_def task_key_def Let_def)
qed

theorem default_keys_witness:
  "task_name idle_form = [] \<and>
   fst (add_cell_form NMC [] 30 1 one_cell_state) = Inr ''cell_2_nmc'' \<and>
   fst (add_task_form idle_form 1 one_cell_state) = Inr ''task_1''"
proof -
  have n: "task_name idle_form = []"
    by (simp add: idle_form_def)
  have c: "(if has_key (''cell_'' @ str_nat (length (cells_data one_cell_state) + 1) @ ''_'' @
                          (case NMC of LFP \<Rightarrow> ''lfp'' | NMC \<Rightarrow> ''nmc'')) (cells_data one_cell_state)
            then Inl DuplicateKeyError
            else Inr (''cell_'' @ str_nat (length (cells_data one_cell_state) + 1) @ ''_'' @
                          (case NMC of LFP \<Rightarrow> ''lfp'' | NMC \<Rightarrow> ''nmc''))) = Inr ''cell_2_nmc''"
    by code_simp
  have t: "(if has_key (''task_'' @ str_nat (length (tasks_data one_cell_state) + 1)) (tasks_data one_cell_state)
            then Inl DuplicateKeyError
            else Inr (''task_'' @ str_nat (length (tasks_data one_cell_state) + 1))) = Inr ''task_1''"
    by code_simp
  from n c t default_keys [OF n, of NMC 30 1 one_cell_state 1]
  show ?thesis
    by simp
qed

text \<open>
  C7. A cell that is created has the fields its chemistry determines: LFP gives voltage
  3.2 within 2.8 and 3.6, NMC gives voltage 3.6 within 3.2 and 4.0 (each literal being
  the float nearest to it); the current is 0, the capacity is
  \<open>round(voltage * current, 2) = 0\<close>, the status is Active, and the temperature is the
  draw from \<open>[25, 40]\<close> rounded to one decimal, which lies in \<open>[25, 40]\<close>.
\<close>

theorem created_cell_fields:
  assumes "25 \<le> u" and "u \<le> 40" and "\<not> has_key (cell_key name ct s) (cells_data s)"
  shows "\<exists>c. map_of (cells_data (snd (add_cell_form ct name u now s))) (cell_key name ct s) = Some c \<and>
           cell_type c = ct \<and>
           voltage c = (case ct of LFP \<Rightarrow> fl (32 / 10) | NMC \<Rightarrow> fl (36 / 10)) \<and>
           min_voltage c = (case ct of LFP \<Rightarrow> fl (28 / 10) | NMC \<Rightarrow> fl (32 / 10)) \<and>
           max_voltage c = (case ct of LFP \<Rightarrow> fl (36 / 10) | NMC \<Rightarrow> fl (40 / 10)) \<and>
           current c = 0 \<and> capacity c = py_round (fmul (voltage c) (current c)) 2 \<and> capacity c = 0 \<and>
           status c = ''Active'' \<and> temperature c = py_round u 1 \<and>
           25 \<le> temperature c \<and> temperature c \<le> 40"
proof -
  let ?c = "generate_cell_data ct (cell_key name ct s) u now"
  have "map_of (cells_data (snd (add_cell_form ct name u now s))) (cell_key name ct s) = Some ?c"
    using assms(3) by (simp add: add_cell_form_def Let_def map_of_dict_set)
  moreover have "cell_type ?c = ct" "current ?c = 0" "capacity ?c = 0" "status ?c = ''Active''"
    "temperature ?c = py_round u 1" "capacity ?c = py_round (fmul (voltage ?c) (current ?c)) 2"
    by (simp_all add: generate_cell_data_def)
  moreover have "voltage ?c = (case ct of LFP \<Rightarrow> fl (32 / 10) | NMC \<Rightarrow> fl (36 / 10))"
    "min_voltage ?c = (case ct of LFP \<Rightarrow> fl (28 / 10) | NMC \<Rightarrow> fl (32 / 10))"
    "max_voltage ?c = (case ct of LFP \<Rightarrow> fl (36 / 10) | NMC \<Rightarrow> fl (40 / 10))"
    by (cases ct; simp add: generate_cell_data_def)+
  moreover have "25 \<le> temperature ?c" "temperature ?c \<le> 40"
    using generate_cell_data_temperature [OF assms(1,2)] by simp_all
  ultimately show ?thesis
    by blast
qed

theorem created_cell_fields_witness:
  "(25::rat) \<le> 3333 / 100 \<and> (3333 / 100 :: rat) \<le> 40 \<and>
   \<not> has_key (cell_key ''A1'' LFP init_state) (cells_data init_state) \<and>
   (\<exists>c. map_of (cells_data one_cell_state) ''A1'' = Some c \<and> cell_type c = LFP \<and>
        voltage c = fl (32 / 10) \<and> min_voltage c = fl (28 / 10) \<and> max_voltage c = fl (36 / 10) \<and>
        current c = 0 \<and> capacity c = 0 \<and> status c = ''Active'' \<and>
        temperature c = py_round (3333 / 100) 1 \<and> 25 \<le> temperature c \<and> temperature c \<le> 40)"
proof -
  have u: "(25::rat) \<le> 3333 / 100" "(3333 / 100 :: rat) \<le> 40"
    by simp_all
  have h: "\<not> has_key (cell_key ''A1'' LFP init_state) (cells_data init_state)"
    by (simp add: has_key_def init_state_def)
  have k: "cell_key ''A1'' LFP init_state = ''A1''"
    by (simp add: cell_key_def)
  from created_cell_fields [OF u h, of 0]
  obtain c where "map_of (cells_data one_cell_state) ''A1'' = Some c" "cell_type c = LFP"
        "voltage c = fl (32 / 10)" "min_voltage c = fl (28 / 10)" "max_voltage c = fl (36 / 10)"
        "current c = 0" "capacity c = 0" "status c = ''Active''"
        "temperature c = py_round (3333 / 100) 1" "25 \<le> temperature c" "temperature c \<le> 40"
    unfolding k one_cell_state_def by auto
  with u h show ?thesis
    by blast
qed

text \<open>
  C8. The keys of a stored task are determined by its type: an IDLE task has the five
  common keys only, a CC_CD task adds \<open>cc_cp\<close>, \<open>voltage\<close> and \<open>capacity\<close> (no
  \<open>cv_voltage\<close>, no \<open>current\<close>), and a CC_CV task adds \<open>cc_cp\<close>, \<open>cv_voltage\<close>,
  \<open>current\<close> and \<open>capacity\<close>.
\<close>

theorem task_fields_by_kind:
  assumes "\<not> has_key (task_key (task_name f) s) (tasks_data s)"
  shows "\<exists>t. map_of (tasks_data (snd (add_task_form f now s))) (task_key (task_name f) s) = Some t \<and>
           map fst t =
             [''task_id'', ''task_type'', ''time_seconds'', ''status'', ''created_at''] @
             (case task_type f of
                IDLE \<Rightarrow> []
              | CC_CD \<Rightarrow> [''cc_cp'', ''voltage'', ''capacity'']
              | CC_CV \<Rightarrow> [''cc_cp'', ''cv_voltage'', ''current'', ''capacity''])"
proof -
  let ?t = "make_task_data f (task_key (task_name f) s) now"
  have "map_of (tasks_data (snd (add_task_form f now s))) (task_key (task_name f) s) = Some ?t"
    using assms by (simp add: add_task_form_def Let_def map_of_dict_set)
  moreover have "map fst ?t =
             [''task_id'', ''task_type'', ''time_seconds'', ''status'', ''created_at''] @
             (case task_type f of
                IDLE \<Rightarrow> []
              | CC_CD \<Rightarrow> [''cc_cp'', ''voltage'', ''capacity'']
              | CC_CV \<Rightarrow> [''cc_cp'', ''cv_voltage'', ''current'', ''capacity''])"
    by (cases "task_type f") (simp_all add: make_task_data_def dict_set_def)
  ultimately show ?thesis
    by blast
qed

theorem task_fields_by_kind_witness:
  "\<not> has_key (task_key (task_name idle_form) one_cell_state) (tasks_data one_cell_state) \<and>
   (\<exists>t. map_of (tasks_data (snd (add_task_form idle_form 1 one_cell_state))) ''task_1'' = Some t \<and>
        map fst t = [''task_id'', ''task_type'', ''time_seconds'', ''status'', ''created_at''])"
proof -
  have h: "\<not> has_key (task_key (task_name idle_form) one_cell_state) (tasks_data one_cell_state)"
    by code_simp
  have k: "task_key (task_name idle_form) one_cell_state = ''task_1''"
    by code_simp
  have i: "task_type idle_form = IDLE"
    by (simp add: idle_form_def)
  from h task_fields_by_kind [OF h, of 1]
  show ?thesis
    by (simp add: k i)
qed

text \<open>
  C10. A default key need not be fresh. After two cells and two tasks were created with
  default names and the first of each was removed, the registries hold \<open>cell_2_lfp\<close> and
  \<open>task_2\<close> and have size 1, so the next default keys are \<open>cell_2_lfp\<close> and \<open>task_2\<close>
  again: both creations are rejected as duplicates.
\<close>

theorem default_key_collision:
  "reachable collision_state \<and>
   map fst (cells_data collision_state) = [''cell_2_lfp''] \<and>
   map fst (tasks_data collision_state) = [''task_2''] \<and>
   cell_key [] LFP collision_state = ''cell_2_lfp'' \<and>
   task_key (task_name idle_form) collision_state = ''task_2'' \<and>
   fst (add_cell_form LFP [] 30 4 collision_state) = Inl DuplicateKeyError \<and>
   fst (add_task_form idle_form 4 collision_state) = Inl DuplicateKeyError"
proof -
  have "reachable (snd (add_cell_form LFP [] 30 0 init_state))"
    by (intro reachable.add_cell reachable.start) simp_all
  then have r2: "reachable two_cells_state"
    unfolding two_cells_state_def by (rule reachable.add_cell) simp_all
  have n2: "cells_data two_cells_state \<noteq> []"
    by code_simp
  have r3: "reachable (snd (add_task_form idle_form 2 two_cells_state))"
    using r2 n2 by (rule reachable.add_task)
  have n3: "cells_data (snd (add_task_form idle_form 2 two_cells_state)) \<noteq> []"
    by code_simp
  have r4: "reachable two_tasks_state"
    unfolding two_tasks_state_def using r3 n3 by (rule reachable.add_task)
  have "has_key ''cell_1_lfp'' (cells_data two_tasks_state)"
    by code_simp
  with r4 have r5: "reachable (remove_cell ''cell_1_lfp'' two_tasks_state)"
    by (rule reachable.remove_cell)
  have "cells_data (remove_cell ''cell_1_lfp'' two_tasks_state) \<noteq> []"
    and "has_key ''task_1'' (tasks_data (remove_cell ''cell_1_lfp'' two_tasks_state))"
    by code_simp+
  with r5 have "reachable collision_state"
    unfolding collision_state_def by (rule reachable.remove_task)
  moreover have "map fst (cells_data collision_state) = [''cell_2_lfp'']"
    and "map fst (tasks_data collision_state) = [''task_2'']"
    and "cell_key [] LFP collision_state = ''cell_2_lfp''"
    and "task_key (task_name idle_form) collision_state = ''task_2''"
    and "fst (add_cell_form LFP [] 30 4 collision_state) = Inl DuplicateKeyError"
    and "fst (add_task_form idle_form 4 collision_state) = Inl DuplicateKeyError"
    by code_simp+
  ultimately show ?thesis
    by simp
qed

end
